theory Spec2Isabelle
  imports Main "HOL-Library.AList"
begin

section \<open>JavaScript values\<close>

text \<open>
  The builder is written in TypeScript, but \<open>data\<close> and \<open>details\<close> have type \<open>any\<close>
  and every operator the code applies (\<open>||\<close>, \<open>&&\<close>, a default parameter, object spread)
  is defined on all JavaScript values, so the model is over run-time values. An object
  is its list of own properties in insertion order. A number is an integer or \<open>NaN\<close>;
  the code never computes with a number, it only tests one for truthiness, and every
  finite non-integer and both infinities are truthy like any non-zero integer.
\<close>

datatype jsval =
    JUndefined
  | JNull
  | JBool bool
  | JNum int
  | JNaN
  | JStr string
  | JArr "jsval list"
  | JObj "(string \<times> jsval) list"

type_synonym obj = "(string \<times> jsval) list"

text \<open>\<open>ToBoolean\<close>: the falsy values are \<open>undefined\<close>, \<open>null\<close>, \<open>false\<close>, \<open>0\<close>, \<open>NaN\<close> and \<open>''\<close>.\<close>

fun truthy :: "jsval \<Rightarrow> bool" where
  "truthy JUndefined = False"
| "truthy JNull = False"
| "truthy (JBool b) = b"
| "truthy (JNum n) = (n \<noteq> 0)"
| "truthy JNaN = False"
| "truthy (JStr s) = (s \<noteq> [])"
| "truthy (JArr xs) = True"
| "truthy (JObj ps) = True"

text \<open>\<open>a || b\<close> and \<open>a && b\<close> return one of their operands.\<close>

definition js_or :: "jsval \<Rightarrow> jsval \<Rightarrow> jsval" where
  "js_or a b = (if truthy a then a else b)"

definition js_and :: "jsval \<Rightarrow> jsval \<Rightarrow> jsval" where
  "js_and a b = (if truthy a then b else a)"

text \<open>A default parameter \<open>p = v\<close> takes \<open>v\<close> exactly when the argument is \<open>undefined\<close>.\<close>

definition default_param :: "jsval \<Rightarrow> jsval \<Rightarrow> jsval" where
  "default_param a v = (if a = JUndefined then v else a)"

text \<open>
  Property read \<open>o.k\<close> (\<open>undefined\<close> when \<open>o\<close> has no such property), the test
  \<open>k in o\<close>, property write \<open>o.k = v\<close> (an existing key keeps its place, a new one goes
  last: this is \<open>AList.update\<close>) and the spread \<open>{...t, ...s}\<close>, which writes the
  properties of \<open>s\<close> in order.
\<close>

definition obj_get :: "obj \<Rightarrow> string \<Rightarrow> jsval" where
  "obj_get ob k = (case map_of ob k of None \<Rightarrow> JUndefined | Some v \<Rightarrow> v)"

definition has_key :: "obj \<Rightarrow> string \<Rightarrow> bool" where
  "has_key ob k = (map_of ob k \<noteq> None)"

definition obj_set :: "obj \<Rightarrow> string \<Rightarrow> jsval \<Rightarrow> obj" where
  "obj_set ob k v = AList.update k v ob"

definition spread :: "obj \<Rightarrow> obj \<Rightarrow> obj" where
  "spread t s = fold (\<lambda>(k, v) acc. obj_set acc k v) s t"

text \<open>Property read on a value that is an object.\<close>

fun get_prop :: "jsval \<Rightarrow> string \<Rightarrow> jsval" where
  "get_prop (JObj ob) k = obj_get ob k"
| "get_prop v k = JUndefined"

fun has_prop :: "jsval \<Rightarrow> string \<Rightarrow> bool" where
  "has_prop (JObj ob) k = has_key ob k"
| "has_prop v k = False"

text \<open>
  What a run can throw: a \<open>TypeError\<close> of the language, and the error with which a
  web framework refuses a status code.
\<close>

datatype js_error = TypeError | StatusCodeError

text \<open>
  The operations of the language that can throw. Reading a property of \<open>undefined\<close>
  or \<open>null\<close> throws; of the names read in this code none is a property of a boolean,
  a number, a string or an array, so there the read gives \<open>undefined\<close>. A class body is
  strict code, where writing a property to anything but an object throws; named
  properties of arrays are not represented, and this code writes to none.
\<close>

fun read_prop :: "jsval \<Rightarrow> string \<Rightarrow> js_error + jsval" where
  "read_prop JUndefined k = Inl TypeError"
| "read_prop JNull k = Inl TypeError"
| "read_prop (JObj ob) k = Inr (obj_get ob k)"
| "read_prop v k = Inr JUndefined"

fun write_prop :: "jsval \<Rightarrow> string \<Rightarrow> jsval \<Rightarrow> js_error + jsval" where
  "write_prop (JObj ob) k v = Inr (JObj (obj_set ob k v))"
| "write_prop (JArr xs) k v = Inr (JArr xs)"
| "write_prop u k v = Inl TypeError"

text \<open>Sequencing: a throw ends the run.\<close>

definition js_bind :: "js_error + 'a \<Rightarrow> ('a \<Rightarrow> js_error + 'b) \<Rightarrow> js_error + 'b" where
  "js_bind r f = (case r of Inl e \<Rightarrow> Inl e | Inr v \<Rightarrow> f v)"

section \<open>The store and the wrapper\<close>

text \<open>
  \<open>this.config\<close> is a reference to an object, and \<open>getConfig\<close> hands an object to the
  caller, who may write to it. Objects that can be shared this way live in a store from
  addresses to property lists; \<open>next_free\<close> is the first address not yet allocated and
  \<open>config\<close> is the address held in \<open>this.config\<close> of the wrapper instance.
\<close>

record state =
  heap :: "nat \<Rightarrow> obj"
  next_free :: nat
  config :: nat

definition this_config :: "state \<Rightarrow> obj" where
  "this_config st = heap st (config st)"

text \<open>An object literal allocates a fresh object.\<close>

definition alloc :: "obj \<Rightarrow> state \<Rightarrow> nat \<times> state" where
  "alloc ob st =
     (next_free st, st\<lparr>heap := (heap st)(next_free st := ob), next_free := Suc (next_free st)\<rparr>)"

text \<open>
  \<^verbatim>\<open>
  constructor(config: ResponseConfig = {}) {
    this.config = {
      defaultSuccessMessage: 'Operation completed successfully',
      defaultErrorMessage: 'An error occurred',
      includeErrorDetails: false,
      ...config
    };
  }
  \<close>
\<close>

definition defaults :: obj where
  "defaults =
     [(''defaultSuccessMessage'', JStr ''Operation completed successfully''),
      (''defaultErrorMessage'', JStr ''An error occurred''),
      (''includeErrorDetails'', JBool False)]"

definition constructor :: "obj \<Rightarrow> state \<Rightarrow> state" where
  "constructor cfg st =
     (let (a, st') = alloc (spread defaults cfg) st in st'\<lparr>config := a\<rparr>)"

text \<open>The store before anything is allocated, and the module's default instance.\<close>

definition empty_store :: state where
  "empty_store = \<lparr>heap = (\<lambda>a. []), next_free = 0, config = 0\<rparr>"

definition defaultWrapper :: state where
  "defaultWrapper = constructor [] empty_store"

section \<open>The envelope builder\<close>

text \<open>
  \<^verbatim>\<open>
  success<T = any>(data: T, message?: string): SuccessResponse<T> {
    return {
      success: true,
      message: message || this.config.defaultSuccessMessage!,
      data
    };
  }
  \<close>
  The \<open>!\<close> is erased by the compiler. An omitted argument is \<open>undefined\<close>.
\<close>

definition success :: "state \<Rightarrow> jsval \<Rightarrow> jsval \<Rightarrow> jsval" where
  "success st data message =
     JObj [(''success'', JBool True),
           (''message'', js_or message (obj_get (this_config st) ''defaultSuccessMessage'')),
           (''data'', data)]"

text \<open>
  \<^verbatim>\<open>
  error(message?: string, code: number = 500, details?: any): ErrorResponse {
    const errorResponse: ErrorResponse = {
      success: false,
      message: message || this.config.defaultErrorMessage!,
      error: { code }
    };
    if (this.config.includeErrorDetails && details) {
      errorResponse.error.details = details;
    }
    return errorResponse;
  }
  \<close>
\<close>

definition error :: "state \<Rightarrow> jsval \<Rightarrow> jsval \<Rightarrow> jsval \<Rightarrow> jsval" where
  "error st message code0 details =
     (let code = default_param code0 (JNum 500);
          err = [(''code'', code)];
          err' = (if truthy (js_and (obj_get (this_config st) ''includeErrorDetails'') details)
                  then obj_set err ''details'' details
                  else err)
      in JObj [(''success'', JBool False),
               (''message'', js_or message (obj_get (this_config st) ''defaultErrorMessage'')),
               (''error'', JObj err')])"

text \<open>
  The same two bodies run operation by operation, with the reads and the write that
  can throw, on the value of \<open>this\<close>. The right operand of \<open>||\<close> is evaluated only when
  the left one is falsy. \<open>errorResponse.error.details = details\<close> reads
  \<open>errorResponse.error\<close> and writes to the object found there.
\<close>

definition try_success :: "jsval \<Rightarrow> jsval \<Rightarrow> jsval \<Rightarrow> js_error + jsval" where
  "try_success this data message =
     js_bind (if truthy message then Inr message
              else js_bind (read_prop this ''config'')
                     (\<lambda>cfg. read_prop cfg ''defaultSuccessMessage''))
       (\<lambda>msg. Inr (JObj [(''success'', JBool True), (''message'', msg), (''data'', data)]))"

definition try_error :: "jsval \<Rightarrow> jsval \<Rightarrow> jsval \<Rightarrow> jsval \<Rightarrow> js_error + jsval" where
  "try_error this message code0 details =
     (let code = default_param code0 (JNum 500)
      in js_bind (if truthy message then Inr message
                  else js_bind (read_prop this ''config'')
                         (\<lambda>cfg. read_prop cfg ''defaultErrorMessage''))
           (\<lambda>msg.
              let errorResponse =
                    [(''success'', JBool False), (''message'', msg),
                     (''error'', JObj [(''code'', code)])]
              in js_bind (read_prop this ''config'')
                   (\<lambda>cfg. js_bind (read_prop cfg ''includeErrorDetails'')
                      (\<lambda>inc.
                         if truthy (js_and inc details)
                         then js_bind (read_prop (JObj errorResponse) ''error'')
                                (\<lambda>e. js_bind (write_prop e ''details'' details)
                                   (\<lambda>e'. Inr (JObj (obj_set errorResponse ''error'' e'))))
                         else Inr (JObj errorResponse)))))"

text \<open>
  The wrapper as the value of \<open>this\<close>: its private field \<open>config\<close> holds the object
  that the constructor or \<open>configure\<close> stored. The exported functions are bound to the
  default instance (\<open>defaultWrapper.success.bind(defaultWrapper)\<close>) and the adapters
  call the methods on the instance.
\<close>

definition this_value :: "state \<Rightarrow> jsval" where
  "this_value st = JObj [(''config'', JObj (this_config st))]"

section \<open>The configuration store\<close>

text \<open>
  \<^verbatim>\<open>
  configure(newConfig: Partial<ResponseConfig>): void {
    this.config = { ...this.config, ...newConfig };
  }
  getConfig(): ResponseConfig {
    return { ...this.config };
  }
  \<close>
  Both build a new object; \<open>configure\<close> stores its address in \<open>this.config\<close>,
  \<open>getConfig\<close> returns it.
\<close>

definition configure :: "obj \<Rightarrow> state \<Rightarrow> state" where
  "configure newConfig st =
     (let (a, st') = alloc (spread (spread [] (this_config st)) newConfig) st
      in st'\<lparr>config := a\<rparr>)"

definition getConfig :: "state \<Rightarrow> nat \<times> state" where
  "getConfig st = alloc (spread [] (this_config st)) st"

text \<open>What a holder of the address \<open>a\<close> can do to the object there: replace its properties.\<close>

definition mutate :: "nat \<Rightarrow> obj \<Rightarrow> state \<Rightarrow> state" where
  "mutate a ob st = st\<lparr>heap := (heap st)(a := ob)\<rparr>"

text \<open>
  A JavaScript object has each key once. In a running program \<open>this.config\<close> points at
  an allocated object.
\<close>

definition wf_obj :: "obj \<Rightarrow> bool" where
  "wf_obj ob = distinct (map fst ob)"

definition wf_state :: "state \<Rightarrow> bool" where
  "wf_state st = (config st < next_free st \<and> wf_obj (this_config st))"

section \<open>The framework adapters\<close>

text \<open>
  Express and Fastify are not part of the repository. A per-request response object is
  modelled by the two things the adapters touch: the properties attached to it (a name
  and what it is bound to) and the framework calls made on it, in order. \<open>res.status\<close>
  and \<open>reply.code\<close> return the object they are called on, so the chained call is the
  next entry of the trace. Which status codes a framework accepts is the framework's
  matter (it throws for a code it refuses, from \<open>status\<close> or \<open>code\<close> or when the
  response is written); that test is the parameter \<open>accepts\<close>.
\<close>

datatype call = Status jsval | Json jsval | Code jsval | Send jsval | Next

datatype binding =
    ExpressApiSuccess
  | ExpressApiError
  | FastifyApiSuccess
  | FastifyApiError
  | WrapperInstance

record response =
  props :: "(string \<times> binding) list"
  trace :: "call list"

text \<open>
  \<^verbatim>\<open>
  middleware() {
    return (req: any, res: any, next: any) => {
      res.apiSuccess = <T = any>(data: T, message?: string) => {
        res.json(this.success(data, message));
      };
      res.apiError = (message?: string, code: number = 500, details?: any) => {
        res.status(code).json(this.error(message, code, details));
      };
      next();
    };
  }
  \<close>
  The arrow functions close over \<open>this\<close>, the wrapper, and over \<open>res\<close>.
\<close>

definition res_apiSuccess :: "state \<Rightarrow> response \<Rightarrow> jsval \<Rightarrow> jsval \<Rightarrow> response" where
  "res_apiSuccess st res data message =
     res\<lparr>trace := trace res @ [Json (success st data message)]\<rparr>"

definition res_apiError ::
    "(jsval \<Rightarrow> bool) \<Rightarrow> state \<Rightarrow> response \<Rightarrow> jsval \<Rightarrow> jsval \<Rightarrow> jsval
       \<Rightarrow> js_error + response" where
  "res_apiError accepts st res message code0 details =
     (let code = default_param code0 (JNum 500)
      in if accepts code
         then Inr (res\<lparr>trace := trace res @
                                [Status code, Json (error st message code details)]\<rparr>)
         else Inl StatusCodeError)"

definition middleware :: "response \<Rightarrow> response" where
  "middleware res =
     res\<lparr>props := AList.update ''apiError'' ExpressApiError
                    (AList.update ''apiSuccess'' ExpressApiSuccess (props res)),
         trace := trace res @ [Next]\<rparr>"

text \<open>
  \<^verbatim>\<open>
  decorateFastify(fastify: any) {
    fastify.decorateReply('apiSuccess', function <T = any>(this: any, data: T, message?: string) {
      const response = this.responseWrapper.success(data, message);
      this.send(response);
    });
    fastify.decorateReply('apiError', function (this: any, message?: string, code: number = 500, details?: any) {
      const response = this.responseWrapper.error(message, code, details);
      this.code(code).send(response);
    });
    fastify.decorate('responseWrapper', this);
  }
  \<close>
  Fastify keeps two sets of decorations apart: \<open>decorateReply\<close> adds a property to
  every reply object, \<open>decorate\<close> adds one to the server instance. Inside a reply
  decoration \<open>this\<close> is the reply, so \<open>this.responseWrapper\<close> is a property read on the
  reply; reading \<open>.error\<close> or \<open>.success\<close> of \<open>undefined\<close> throws a \<open>TypeError\<close>.
\<close>

record fastify =
  instance_props :: "(string \<times> binding) list"
  reply_props :: "(string \<times> binding) list"

definition decorateFastify :: "fastify \<Rightarrow> fastify" where
  "decorateFastify f =
     f\<lparr>reply_props := AList.update ''apiError'' FastifyApiError
                          (AList.update ''apiSuccess'' FastifyApiSuccess (reply_props f)),
       instance_props := AList.update ''responseWrapper'' WrapperInstance (instance_props f)\<rparr>"

definition new_reply :: "fastify \<Rightarrow> response" where
  "new_reply f = \<lparr>props = reply_props f, trace = []\<rparr>"

definition reply_apiSuccess :: "state \<Rightarrow> response \<Rightarrow> jsval \<Rightarrow> jsval \<Rightarrow> js_error + response" where
  "reply_apiSuccess st reply data message =
     (case map_of (props reply) ''responseWrapper'' of
        Some WrapperInstance \<Rightarrow>
          Inr (reply\<lparr>trace := trace reply @ [Send (success st data message)]\<rparr>)
      | _ \<Rightarrow> Inl TypeError)"

definition reply_apiError ::
    "(jsval \<Rightarrow> bool) \<Rightarrow> state \<Rightarrow> response \<Rightarrow> jsval \<Rightarrow> jsval \<Rightarrow> jsval
       \<Rightarrow> js_error + response" where
  "reply_apiError accepts st reply message code0 details =
     (let code = default_param code0 (JNum 500)
      in case map_of (props reply) ''responseWrapper'' of
           Some WrapperInstance \<Rightarrow>
             if accepts code
             then Inr (reply\<lparr>trace := trace reply @
                                         [Code code, Send (error st message code details)]\<rparr>)
             else Inl StatusCodeError
         | _ \<Rightarrow> Inl TypeError)"

text \<open>
  The call \<open>r.apiError(message, code, details)\<close> on a response object: it runs what the
  property is bound to, and calling a missing property is a \<open>TypeError\<close>.
\<close>

definition call_apiError ::
    "(jsval \<Rightarrow> bool) \<Rightarrow> state \<Rightarrow> response \<Rightarrow> jsval \<Rightarrow> jsval \<Rightarrow> jsval
       \<Rightarrow> js_error + response" where
  "call_apiError accepts st r message code details =
     (case map_of (props r) ''apiError'' of
        Some ExpressApiError \<Rightarrow> res_apiError accepts st r message code details
      | Some FastifyApiError \<Rightarrow> reply_apiError accepts st r message code details
      | _ \<Rightarrow> Inl TypeError)"

section \<open>Properties of envelopes\<close>

text \<open>
  The discriminated union: the flag is \<open>true\<close> with \<open>data\<close> and without \<open>error\<close>, or
  \<open>false\<close> with \<open>error\<close> and without \<open>data\<close>.
\<close>

definition discriminated :: "jsval \<Rightarrow> bool" where
  "discriminated e =
     (if get_prop e ''success'' = JBool True
        then has_prop e ''data'' \<and> \<not> has_prop e ''error''
      else if get_prop e ''success'' = JBool False
        then has_prop e ''error'' \<and> \<not> has_prop e ''data''
      else False)"

text \<open>
  The two envelopes, as \<open>types.ts\<close> declares them:
  \<^verbatim>\<open>
  export interface SuccessResponse<T = any> {
    success: true;
    message: string;
    data: T;
    error?: never;
  }
  export interface ErrorResponse {
    success: false;
    message: string;
    error: {
      code: number;
      details?: any;
    };
    data?: never;
  }
  \<close>
\<close>

fun is_string :: "jsval \<Rightarrow> bool" where
  "is_string (JStr s) = True"
| "is_string v = False"

fun is_number :: "jsval \<Rightarrow> bool" where
  "is_number (JNum n) = True"
| "is_number JNaN = True"
| "is_number v = False"

definition is_SuccessResponse :: "jsval \<Rightarrow> bool" where
  "is_SuccessResponse e =
     (case e of
        JObj ob \<Rightarrow>
          map fst ob = [''success'', ''message'', ''data''] \<and>
          obj_get ob ''success'' = JBool True \<and>
          is_string (obj_get ob ''message'')
      | _ \<Rightarrow> False)"

definition is_error_info :: "jsval \<Rightarrow> bool" where
  "is_error_info b =
     (case b of
        JObj eb \<Rightarrow>
          (map fst eb = [''code''] \<or> map fst eb = [''code'', ''details'']) \<and>
          is_number (obj_get eb ''code'')
      | _ \<Rightarrow> False)"

definition is_ErrorResponse :: "jsval \<Rightarrow> bool" where
  "is_ErrorResponse e =
     (case e of
        JObj ob \<Rightarrow>
          map fst ob = [''success'', ''message'', ''error''] \<and>
          obj_get ob ''success'' = JBool False \<and>
          is_string (obj_get ob ''message'') \<and>
          is_error_info (obj_get ob ''error'')
      | _ \<Rightarrow> False)"

text \<open>
  Arguments of the declared types \<open>message?: string\<close> and \<open>code: number = 500\<close>, a
  configuration whose two messages are strings (\<open>defaultSuccessMessage?: string\<close>,
  \<open>defaultErrorMessage?: string\<close>), and a partial configuration that gives strings to
  the messages it sets.
\<close>

definition opt_string :: "jsval \<Rightarrow> bool" where
  "opt_string m = (m = JUndefined \<or> is_string m)"

definition opt_number :: "jsval \<Rightarrow> bool" where
  "opt_number c = (c = JUndefined \<or> is_number c)"

definition typed_config :: "state \<Rightarrow> bool" where
  "typed_config st =
     (is_string (obj_get (this_config st) ''defaultSuccessMessage'') \<and>
      is_string (obj_get (this_config st) ''defaultErrorMessage''))"

definition typed_partial :: "obj \<Rightarrow> bool" where
  "typed_partial p =
     ((has_key p ''defaultSuccessMessage'' \<longrightarrow> is_string (obj_get p ''defaultSuccessMessage'')) \<and>
      (has_key p ''defaultErrorMessage'' \<longrightarrow> is_string (obj_get p ''defaultErrorMessage'')))"

section \<open>Basic facts\<close>

lemma js_or_truthy: "truthy a \<Longrightarrow> js_or a b = a"
  by (simp add: js_or_def)

lemma js_or_falsy: "\<not> truthy a \<Longrightarrow> js_or a b = b"
  by (simp add: js_or_def)

lemma this_config_defaultWrapper: "this_config defaultWrapper = defaults"
  by (simp add: defaultWrapper_def constructor_def alloc_def empty_store_def
      this_config_def spread_def)

text \<open>Objects: reading after a write, and what a spread contains.\<close>

lemma obj_get_set: "obj_get (obj_set ob k v) k' = (if k' = k then v else obj_get ob k')"
  by (simp add: obj_get_def obj_set_def update_conv')

lemma has_key_set: "has_key (obj_set ob k v) k' = (k' = k \<or> has_key ob k')"
  by (simp add: has_key_def obj_set_def update_conv')

lemma map_of_spread: "map_of (spread t s) = map_of t ++ map_of (rev s)"
proof (induction s arbitrary: t)
  case Nil
  then show ?case by (simp add: spread_def)
next
  case (Cons p s)
  obtain k v where p: "p = (k, v)" by (cases p)
  have step: "spread t (p # s) = spread (obj_set t k v) s"
    by (simp add: spread_def p)
  have upd: "map_of (obj_set t k v) = (map_of t)(k \<mapsto> v)"
    by (simp only: obj_set_def update_conv')
  have revp: "map_of (rev (p # s)) = [k \<mapsto> v] ++ map_of (rev s)"
    by (simp add: p)
  have "map_of (spread t (p # s)) = map_of (spread (obj_set t k v) s)"
    by (simp only: step)
  also have "\<dots> = map_of (obj_set t k v) ++ map_of (rev s)"
    by (rule Cons.IH)
  also have "\<dots> = (map_of t)(k \<mapsto> v) ++ map_of (rev s)"
    by (simp only: upd)
  also have "\<dots> = map_of t ++ ([k \<mapsto> v] ++ map_of (rev s))"
    by (rule ext) (simp add: map_add_def split: option.splits)
  also have "\<dots> = map_of t ++ map_of (rev (p # s))"
    by (simp only: revp)
  finally show ?case .
qed

lemma map_of_rev_distinct: "distinct (map fst s) \<Longrightarrow> map_of (rev s) = map_of s"
  by (rule map_of_inject_set [THEN iffD2]) (simp_all add: rev_map [symmetric])

lemma spread_fresh: "distinct (map fst (t @ s)) \<Longrightarrow> spread t s = t @ s"
proof (induction s arbitrary: t)
  case Nil
  then show ?case by (simp add: spread_def)
next
  case (Cons p s)
  obtain k v where p: "p = (k, v)" by (cases p)
  have fresh: "k \<notin> set (map fst t)" using Cons.prems by (auto simp: p)
  have upd: "obj_set t k v = t @ [(k, v)]"
    using fresh by (induction t) (auto simp: obj_set_def)
  have "spread t (p # s) = spread (t @ [(k, v)]) s"
    by (simp add: spread_def p upd)
  also have "\<dots> = (t @ [(k, v)]) @ s"
    using Cons.prems by (intro Cons.IH) (auto simp: p)
  finally show ?case by (simp add: p)
qed

lemma spread_copy: "distinct (map fst s) \<Longrightarrow> spread [] s = s"
  using spread_fresh [of "[]" s] by simp

lemma distinct_spread: "distinct (map fst t) \<Longrightarrow> distinct (map fst (spread t s))"
proof (induction s arbitrary: t)
  case Nil
  then show ?case by (simp add: spread_def)
next
  case (Cons p s)
  obtain k v where p: "p = (k, v)" by (cases p)
  have "spread t (p # s) = spread (obj_set t k v) s"
    by (simp add: spread_def p)
  moreover have "distinct (map fst (obj_set t k v))"
    using Cons.prems by (simp add: obj_set_def distinct_update)
  ultimately show ?case using Cons.IH by simp
qed

lemma obj_get_spread:
  assumes "distinct (map fst s)"
  shows "obj_get (spread t s) k = (if has_key s k then obj_get s k else obj_get t k)"
proof -
  have "map_of (spread t s) k = (map_of t ++ map_of s) k"
    using assms by (simp only: map_of_spread map_of_rev_distinct)
  then show ?thesis
    by (cases "map_of s k") (simp_all add: obj_get_def has_key_def map_add_def)
qed

text \<open>The configuration after \<open>configure\<close>, and the invariant of the store.\<close>

lemma this_config_configure:
  "this_config (configure p st) = spread (spread [] (this_config st)) p"
  by (simp add: configure_def alloc_def this_config_def)

lemma obj_get_configure_single:
  "obj_get (this_config (configure [(k, v)] st)) k = v"
  by (simp add: this_config_configure spread_def obj_get_set)

lemma wf_state_constructor: "wf_state (constructor cfg st)"
  by (simp add: wf_state_def wf_obj_def constructor_def alloc_def this_config_def
      distinct_spread defaults_def)

lemma wf_state_configure: "wf_state (configure p st)"
  by (simp add: wf_state_def wf_obj_def configure_def alloc_def this_config_def
      distinct_spread)

lemma wf_state_defaultWrapper: "wf_state defaultWrapper"
  by (simp add: defaultWrapper_def wf_state_constructor)

lemma getConfig_fresh:
  "fst (getConfig st) = next_free st"
  "config (snd (getConfig st)) = config st"
  "next_free (snd (getConfig st)) = Suc (next_free st)"
  "heap (snd (getConfig st)) = (heap st)(next_free st := spread [] (this_config st))"
  by (simp_all add: getConfig_def alloc_def)

lemma getConfig_copy:
  "wf_state st \<Longrightarrow> heap (snd (getConfig st)) (fst (getConfig st)) = this_config st"
  by (simp add: getConfig_fresh wf_state_def wf_obj_def spread_copy)

lemma wf_state_getConfig: "wf_state st \<Longrightarrow> wf_state (snd (getConfig st))"
  by (simp add: getConfig_fresh wf_state_def this_config_def)

lemma this_config_mutate:
  "wf_state st \<Longrightarrow>
   this_config (mutate (fst (getConfig st)) ob (snd (getConfig st))) = this_config st"
  by (simp add: getConfig_fresh wf_state_def this_config_def mutate_def)

lemma wf_state_mutate:
  "wf_state st \<Longrightarrow> wf_state (mutate (fst (getConfig st)) ob (snd (getConfig st)))"
  by (simp add: getConfig_fresh wf_state_def this_config_def mutate_def)

text \<open>The fields of the two envelopes.\<close>

lemma message_success:
  "get_prop (success st d m) ''message'' =
     js_or m (obj_get (this_config st) ''defaultSuccessMessage'')"
  by (simp add: success_def obj_get_def)

lemma message_error:
  "get_prop (error st m c x) ''message'' =
     js_or m (obj_get (this_config st) ''defaultErrorMessage'')"
  by (simp add: error_def Let_def obj_get_def)

lemma error_body:
  "get_prop (error st m c x) ''error'' =
     JObj (if truthy (obj_get (this_config st) ''includeErrorDetails'') \<and> truthy x
           then [(''code'', default_param c (JNum 500)), (''details'', x)]
           else [(''code'', default_param c (JNum 500))])"
  by (simp add: error_def Let_def obj_get_def js_and_def obj_set_def)

lemma error_default_code: "error st m (default_param c (JNum 500)) x = error st m c x"
  by (simp add: error_def default_param_def)

section \<open>The success envelope\<close>

text \<open>
  C1 (as amended): for every data value \<open>d\<close> and every non-empty message string \<open>m\<close>,
  \<open>success(d, m)\<close> returns exactly \<open>{success: true, message: m, data: d}\<close>.
\<close>

theorem success_envelope:
  "m \<noteq> [] \<Longrightarrow>
   success st d (JStr m) = JObj [(''success'', JBool True), (''message'', JStr m), (''data'', d)]"
  by (simp add: success_def js_or_def)

theorem success_envelope_witness:
  "''ok'' \<noteq> [] \<and>
   success defaultWrapper (JNum 1) (JStr ''ok'') =
     JObj [(''success'', JBool True), (''message'', JStr ''ok''), (''data'', JNum 1)]"
  using success_envelope [of "''ok''" defaultWrapper "JNum 1"] by simp

text \<open>
  C1 as stated fails at the empty message: on the default instance \<open>success(1, '')\<close>
  carries the default message, not \<open>''\<close>.
\<close>

theorem success_empty_message_counterexample:
  "success defaultWrapper (JNum 1) (JStr '''') \<noteq>
     JObj [(''success'', JBool True), (''message'', JStr ''''), (''data'', JNum 1)]"
  by (simp add: success_def js_or_def this_config_defaultWrapper defaults_def obj_get_def)

text \<open>
  C4: with the message omitted, \<open>success(d)\<close> carries the \<open>defaultSuccessMessage\<close> that
  the configuration holds when the call is made.
\<close>

theorem success_default_message:
  "get_prop (success st d JUndefined) ''message'' =
     obj_get (this_config st) ''defaultSuccessMessage''"
  by (simp add: message_success js_or_def)

text \<open>
  C9: a falsy message is replaced by the configured default, in \<open>success\<close> and in
  \<open>error\<close>; the empty string is falsy, so \<open>success(d, '')\<close> carries
  \<open>defaultSuccessMessage\<close> and \<open>error('')\<close> carries \<open>defaultErrorMessage\<close>.
\<close>

theorem falsy_message_default:
  "\<not> truthy m \<Longrightarrow>
   get_prop (success st d m) ''message'' = obj_get (this_config st) ''defaultSuccessMessage'' \<and>
   get_prop (error st m c x) ''message'' = obj_get (this_config st) ''defaultErrorMessage''"
  by (simp add: message_success message_error js_or_def)

theorem falsy_message_default_witness:
  "\<not> truthy (JStr '''') \<and>
   get_prop (success defaultWrapper (JNum 1) (JStr '''')) ''message''
     = JStr ''Operation completed successfully'' \<and>
   get_prop (error defaultWrapper (JStr '''') JUndefined JUndefined) ''message''
     = JStr ''An error occurred''"
  using falsy_message_default [of "JStr ''''" defaultWrapper "JNum 1" JUndefined JUndefined]
  by (simp add: this_config_defaultWrapper defaults_def obj_get_def)

section \<open>The error envelope\<close>

text \<open>
  C2 (as amended): the envelope returned by \<open>error\<close> has the \<open>details\<close> field if and
  only if the \<open>details\<close> argument is truthy and \<open>includeErrorDetails\<close> is truthy (for
  the declared boolean: \<open>true\<close>). With \<open>includeErrorDetails = true\<close>,
  \<open>error('x', 404, {a: 1})\<close> is
  \<open>{success: false, message: 'x', error: {code: 404, details: {a: 1}}}\<close>, and with
  \<open>includeErrorDetails = false\<close> it is the same envelope without \<open>details\<close>.
\<close>

theorem error_details_iff:
  "has_prop (get_prop (error st m c x) ''error'') ''details'' =
     (truthy (obj_get (this_config st) ''includeErrorDetails'') \<and> truthy x) \<and>
   error (configure [(''includeErrorDetails'', JBool True)] st)
         (JStr ''x'') (JNum 404) (JObj [(''a'', JNum 1)]) =
     JObj [(''success'', JBool False), (''message'', JStr ''x''),
           (''error'', JObj [(''code'', JNum 404), (''details'', JObj [(''a'', JNum 1)])])] \<and>
   error (configure [(''includeErrorDetails'', JBool False)] st)
         (JStr ''x'') (JNum 404) (JObj [(''a'', JNum 1)]) =
     JObj [(''success'', JBool False), (''message'', JStr ''x''),
           (''error'', JObj [(''code'', JNum 404)])]"
  by (simp add: error_body has_key_def)
     (simp add: error_def js_or_def js_and_def default_param_def obj_set_def
        obj_get_configure_single)

text \<open>
  C2 as stated fails when the supplied \<open>details\<close> is falsy: with
  \<open>includeErrorDetails = true\<close>, \<open>error('x', 404, 0)\<close> was given a \<open>details\<close> argument
  and its envelope has no \<open>details\<close> field.
\<close>

theorem error_details_supplied_counterexample:
  "obj_get (this_config (configure [(''includeErrorDetails'', JBool True)] defaultWrapper))
     ''includeErrorDetails'' = JBool True \<and>
   JNum 0 \<noteq> JUndefined \<and>
   \<not> has_prop (get_prop (error (configure [(''includeErrorDetails'', JBool True)] defaultWrapper)
                                (JStr ''x'') (JNum 404) (JNum 0)) ''error'') ''details''"
  by (simp add: obj_get_configure_single error_body has_key_def)

text \<open>
  C10: a falsy \<open>details\<close> argument (\<open>0\<close>, \<open>''\<close>, \<open>false\<close>, \<open>null\<close>) is left out of the
  envelope whatever \<open>includeErrorDetails\<close> is, and \<open>error.code\<close> is the supplied code
  whatever the configuration is.
\<close>

theorem falsy_details_omitted:
  "(\<not> truthy x \<longrightarrow> \<not> has_prop (get_prop (error st m c x) ''error'') ''details'') \<and>
   (c \<noteq> JUndefined \<longrightarrow> get_prop (get_prop (error st m c x) ''error'') ''code'' = c)"
  by (simp add: error_body has_key_def obj_get_def default_param_def)

theorem falsy_details_omitted_witness:
  "obj_get (this_config (configure [(''includeErrorDetails'', JBool True)] defaultWrapper))
     ''includeErrorDetails'' = JBool True \<and>
   \<not> truthy (JStr '''') \<and> JNum 404 \<noteq> JUndefined \<and>
   \<not> has_prop (get_prop (error (configure [(''includeErrorDetails'', JBool True)] defaultWrapper)
                                (JStr ''x'') (JNum 404) (JStr '''')) ''error'') ''details'' \<and>
   get_prop (get_prop (error (configure [(''includeErrorDetails'', JBool True)] defaultWrapper)
                             (JStr ''x'') (JNum 404) (JStr '''')) ''error'') ''code'' = JNum 404"
  using falsy_details_omitted
          [of "JStr ''''" "configure [(''includeErrorDetails'', JBool True)] defaultWrapper"
              "JStr ''x''" "JNum 404"]
  by (simp add: obj_get_configure_single)

text \<open>
  C5: in any state, after \<open>configure({defaultErrorMessage: y})\<close> the call \<open>error()\<close>
  with no arguments returns an envelope whose message is \<open>y\<close>; \<open>'Y'\<close> is one such \<open>y\<close>.
\<close>

theorem configure_default_error_message:
  "get_prop (error (configure [(''defaultErrorMessage'', JStr y)] st)
                   JUndefined JUndefined JUndefined) ''message'' = JStr y"
  by (simp add: message_error js_or_def obj_get_configure_single)

section \<open>Both envelopes\<close>

text \<open>
  C3: every envelope built by \<open>success\<close> or \<open>error\<close> is a discriminated union: with the
  flag \<open>true\<close> it has a \<open>data\<close> field and no \<open>error\<close> field, with the flag \<open>false\<close> it
  has an \<open>error\<close> field and no \<open>data\<close> field.
\<close>

theorem envelope_discriminated:
  "discriminated (success st d m) \<and> get_prop (success st d m) ''success'' = JBool True \<and>
   discriminated (error st m c x) \<and> get_prop (error st m c x) ''success'' = JBool False"
  by (simp add: discriminated_def success_def error_def Let_def obj_get_def has_key_def)

text \<open>The configuration keeps string messages.\<close>

lemma typed_config_defaultWrapper: "typed_config defaultWrapper"
  by (simp add: typed_config_def this_config_defaultWrapper defaults_def obj_get_def)

lemma typed_config_configure:
  assumes "typed_config st" and "wf_state st" and "wf_obj p" and "typed_partial p"
  shows "typed_config (configure p st)"
  using assms
  by (simp add: typed_config_def typed_partial_def wf_state_def wf_obj_def
      this_config_configure obj_get_spread spread_copy)

text \<open>Run on the wrapper, the two bodies do not throw and return the values above.\<close>

lemma try_success_returns: "try_success (this_value st) d m = Inr (success st d m)"
  by (simp add: try_success_def success_def this_value_def js_bind_def js_or_def obj_get_def)

lemma try_error_returns: "try_error (this_value st) m c x = Inr (error st m c x)"
  by (simp add: try_error_def error_def this_value_def js_bind_def js_or_def Let_def
      obj_get_def obj_set_def)

text \<open>
  The run throws where the language does: on \<open>undefined\<close> in place of the wrapper (a
  method taken off its instance, which the module's bound exports are not) the read of
  \<open>this.config\<close> is a \<open>TypeError\<close>.
\<close>

lemma try_success_unbound: "try_success JUndefined d JUndefined = Inl TypeError"
  by (simp add: try_success_def js_bind_def)

text \<open>
  C7: for every data, message, code and details, \<open>success\<close> and \<open>error\<close> run to the end
  without throwing and return a value; for arguments of the declared types, on a
  configuration whose messages are strings, that value is a success envelope,
  respectively an error envelope.
\<close>

theorem builder_total:
  "try_success (this_value st) d m = Inr (success st d m) \<and>
   try_error (this_value st) m c x = Inr (error st m c x) \<and>
   (typed_config st \<and> opt_string m \<and> opt_number c \<longrightarrow>
      is_SuccessResponse (success st d m) \<and> is_ErrorResponse (error st m c x))"
proof -
  have shape: "is_SuccessResponse (success st d m) \<and> is_ErrorResponse (error st m c x)"
    if cfg: "typed_config st" and msg: "opt_string m" and code: "opt_number c"
  proof -
    have m1: "is_string (js_or m (obj_get (this_config st) ''defaultSuccessMessage''))"
      using cfg msg by (auto simp: js_or_def typed_config_def opt_string_def)
    have m2: "is_string (js_or m (obj_get (this_config st) ''defaultErrorMessage''))"
      using cfg msg by (auto simp: js_or_def typed_config_def opt_string_def)
    have c1: "is_number (default_param c (JNum 500))"
      using code by (auto simp: default_param_def opt_number_def)
    have "is_SuccessResponse (success st d m)"
      using m1 by (simp add: is_SuccessResponse_def success_def obj_get_def)
    moreover have "is_ErrorResponse (error st m c x)"
      using m2 c1
      by (simp add: is_ErrorResponse_def is_error_info_def error_def Let_def obj_get_def
          obj_set_def)
    ultimately show ?thesis by simp
  qed
  show ?thesis
    using try_success_returns [of st d m] try_error_returns [of st m c x] shape by blast
qed

theorem builder_total_witness:
  "typed_config defaultWrapper \<and> opt_string JUndefined \<and> opt_number (JNum 404) \<and>
   try_success (this_value defaultWrapper) (JNum 1) JUndefined =
     Inr (JObj [(''success'', JBool True),
                (''message'', JStr ''Operation completed successfully''),
                (''data'', JNum 1)]) \<and>
   try_error (this_value defaultWrapper) JUndefined (JNum 404) JNull =
     Inr (JObj [(''success'', JBool False), (''message'', JStr ''An error occurred''),
                (''error'', JObj [(''code'', JNum 404)])]) \<and>
   is_SuccessResponse (success defaultWrapper (JNum 1) JUndefined) \<and>
   is_ErrorResponse (error defaultWrapper JUndefined (JNum 404) JNull)"
proof -
  have a: "typed_config defaultWrapper"
    by (rule typed_config_defaultWrapper)
  have b: "opt_string JUndefined" "opt_number (JNum 404)"
    by (simp_all add: opt_string_def opt_number_def)
  have s: "success defaultWrapper (JNum 1) JUndefined =
             JObj [(''success'', JBool True),
                   (''message'', JStr ''Operation completed successfully''),
                   (''data'', JNum 1)]"
    by (simp add: success_def js_or_def this_config_defaultWrapper defaults_def obj_get_def)
  have e: "error defaultWrapper JUndefined (JNum 404) JNull =
             JObj [(''success'', JBool False), (''message'', JStr ''An error occurred''),
                   (''error'', JObj [(''code'', JNum 404)])]"
    by (simp add: error_def js_or_def js_and_def default_param_def
        this_config_defaultWrapper defaults_def obj_get_def)
  from builder_total [of defaultWrapper "JNum 1" JUndefined "JNum 404" JNull] a b
  have "try_success (this_value defaultWrapper) (JNum 1) JUndefined =
          Inr (success defaultWrapper (JNum 1) JUndefined)"
    and "try_error (this_value defaultWrapper) JUndefined (JNum 404) JNull =
          Inr (error defaultWrapper JUndefined (JNum 404) JNull)"
    and "is_SuccessResponse (success defaultWrapper (JNum 1) JUndefined)"
    and "is_ErrorResponse (error defaultWrapper JUndefined (JNum 404) JNull)"
    by blast+
  with a b s e show ?thesis by simp
qed

section \<open>Merging and copying the configuration\<close>

text \<open>
  C6: \<open>configure(partial)\<close> merges: a field of the partial takes its new value and
  every other field keeps the value it had. \<open>getConfig()\<close> returns a copy: a new
  object, not the stored one, with the stored fields; whatever the caller then
  writes to it, the stored configuration and the result of a later \<open>getConfig()\<close>
  are what they were.
\<close>

theorem configure_merges_getConfig_copies:
  assumes "wf_state st" and "wf_obj p"
  shows "(\<forall>k. obj_get (this_config (configure p st)) k =
               (if has_key p k then obj_get p k else obj_get (this_config st) k)) \<and>
         fst (getConfig st) \<noteq> config st \<and>
         heap (snd (getConfig st)) (fst (getConfig st)) = this_config st \<and>
         (\<forall>ob. let st' = mutate (fst (getConfig st)) ob (snd (getConfig st))
               in this_config st' = this_config st \<and>
                  heap (snd (getConfig st')) (fst (getConfig st')) = this_config st)"
proof -
  have merge: "obj_get (this_config (configure p st)) k =
                 (if has_key p k then obj_get p k else obj_get (this_config st) k)" for k
    using assms
    by (simp add: this_config_configure obj_get_spread spread_copy wf_state_def wf_obj_def)
  have other: "fst (getConfig st) \<noteq> config st"
    using assms(1) by (simp add: getConfig_fresh wf_state_def)
  have later: "this_config (mutate (fst (getConfig st)) ob (snd (getConfig st))) = this_config st \<and>
               heap (snd (getConfig (mutate (fst (getConfig st)) ob (snd (getConfig st)))))
                    (fst (getConfig (mutate (fst (getConfig st)) ob (snd (getConfig st)))))
                 = this_config st" for ob
    using assms(1) getConfig_copy [OF wf_state_mutate [OF assms(1), of ob]]
    by (simp add: this_config_mutate)
  show ?thesis
    using merge other getConfig_copy [OF assms(1)] later by (simp add: Let_def)
qed

theorem configure_merges_getConfig_copies_witness:
  "wf_state defaultWrapper \<and> wf_obj [(''defaultErrorMessage'', JStr ''Y'')] \<and>
   this_config (configure [(''defaultErrorMessage'', JStr ''Y'')] defaultWrapper) =
     [(''defaultSuccessMessage'', JStr ''Operation completed successfully''),
      (''defaultErrorMessage'', JStr ''Y''),
      (''includeErrorDetails'', JBool False)] \<and>
   obj_get (this_config (configure [(''defaultErrorMessage'', JStr ''Y'')] defaultWrapper))
     ''includeErrorDetails'' = obj_get (this_config defaultWrapper) ''includeErrorDetails'' \<and>
   fst (getConfig defaultWrapper) \<noteq> config defaultWrapper \<and>
   heap (snd (getConfig defaultWrapper)) (fst (getConfig defaultWrapper)) = defaults \<and>
   this_config (mutate (fst (getConfig defaultWrapper))
                  [(''includeErrorDetails'', JBool True)] (snd (getConfig defaultWrapper)))
     = defaults"
proof -
  have a: "wf_state defaultWrapper"
    by (rule wf_state_defaultWrapper)
  have b: "wf_obj [(''defaultErrorMessage'', JStr ''Y'')]"
    by (simp add: wf_obj_def)
  have c: "this_config (configure [(''defaultErrorMessage'', JStr ''Y'')] defaultWrapper) =
     [(''defaultSuccessMessage'', JStr ''Operation completed successfully''),
      (''defaultErrorMessage'', JStr ''Y''),
      (''includeErrorDetails'', JBool False)]"
    by (simp add: this_config_configure this_config_defaultWrapper defaults_def spread_def
        obj_set_def)
  from configure_merges_getConfig_copies [OF a b]
  have "obj_get (this_config (configure [(''defaultErrorMessage'', JStr ''Y'')] defaultWrapper))
          ''includeErrorDetails'' = obj_get (this_config defaultWrapper) ''includeErrorDetails''"
    and "fst (getConfig defaultWrapper) \<noteq> config defaultWrapper"
    and "heap (snd (getConfig defaultWrapper)) (fst (getConfig defaultWrapper)) = defaults"
    and "this_config (mutate (fst (getConfig defaultWrapper))
                  [(''includeErrorDetails'', JBool True)] (snd (getConfig defaultWrapper)))
           = defaults"
    by (simp_all add: Let_def has_key_def this_config_defaultWrapper)
  with a b c show ?thesis by simp
qed

section \<open>What the adapters send\<close>

text \<open>
  The Express adapter: after the middleware has run, \<open>res.apiError(m, c, x)\<close> with a
  code that the framework accepts calls \<open>res.status\<close> with the code and then \<open>json\<close>
  with the envelope of the builder, whose \<open>error.code\<close> is that code; with a code that
  the framework refuses nothing is sent.
\<close>

lemma error_code:
  "get_prop (get_prop (error st m c x) ''error'') ''code'' = default_param c (JNum 500)"
  by (simp add: error_body obj_get_def)

lemma express_apiError_sends:
  "accepts (default_param c (JNum 500)) \<Longrightarrow>
   call_apiError accepts st (middleware res) m c x =
     Inr ((middleware res)\<lparr>trace := trace res @
            [Next, Status (default_param c (JNum 500)), Json (error st m c x)]\<rparr>)"
  by (simp add: call_apiError_def middleware_def update_conv' res_apiError_def
      error_default_code)

lemma express_apiError_refused:
  "\<not> accepts (default_param c (JNum 500)) \<Longrightarrow>
   call_apiError accepts st (middleware res) m c x = Inl StatusCodeError"
  by (simp add: call_apiError_def middleware_def update_conv' res_apiError_def)

text \<open>
  The function registered for Fastify does the same on a reply that has a
  \<open>responseWrapper\<close> property bound to the wrapper.
\<close>

lemma reply_apiError_sends:
  "map_of (props r) ''responseWrapper'' = Some WrapperInstance \<Longrightarrow>
   accepts (default_param c (JNum 500)) \<Longrightarrow>
   reply_apiError accepts st r m c x =
     Inr (r\<lparr>trace := trace r @ [Code (default_param c (JNum 500)), Send (error st m c x)]\<rparr>)"
  by (simp add: reply_apiError_def error_default_code)

text \<open>
  \<open>decorateFastify\<close> gives \<open>responseWrapper\<close> to the server instance, not to the
  replies, so no reply of the decorated server has it.
\<close>

lemma decorateFastify_reply_has_no_wrapper:
  "map_of (reply_props f) ''responseWrapper'' = None \<Longrightarrow>
   map_of (props (new_reply (decorateFastify f))) ''responseWrapper'' = None"
  by (simp add: new_reply_def decorateFastify_def update_conv')

text \<open>
  C8 says that \<open>apiError\<close> of either adapter sends the envelope of the builder with
  the status set to its code. On a reply of a Fastify server decorated by
  \<open>decorateFastify\<close> the call \<open>reply.apiError(m, c, x)\<close> throws a \<open>TypeError\<close> for every
  \<open>m\<close>, \<open>c\<close> and \<open>x\<close>, whatever codes the framework accepts, before \<open>reply.code\<close> or
  \<open>reply.send\<close> is reached.
\<close>

theorem fastify_apiError_throws:
  "call_apiError accepts st
     (new_reply (decorateFastify \<lparr>instance_props = [], reply_props = []\<rparr>))
     m c x = Inl TypeError"
  by (simp add: call_apiError_def new_reply_def decorateFastify_def reply_apiError_def)

end
